theory Spec2Isabelle
  imports Main "HOL-Library.Word"
begin

section \<open>The CMS server of \<^verbatim>\<open>src/server.js\<close>\<close>

text \<open>
  The server is a set of Express route handlers over two hosted services: the auth
  client (\<^verbatim>\<open>supabase.auth\<close>, the Directory Service of the specification) and the
  table client (\<^verbatim>\<open>supabaseAdmin.from(...)\<close>, the Record Store). Neither service is
  code of the repository. The Directory Service is a parameter of the model (a record
  of functions); the Record Store is an in-memory table store with the semantics of
  the query builder calls the handlers make, and the error a call may come back with
  is an input of each handler.
\<close>

subsection \<open>JavaScript values\<close>

text \<open>
  A field of \<^verbatim>\<open>req.body\<close>, a cookie or a metadata entry is a string or
  \<^verbatim>\<open>undefined\<close>: \<open>string option\<close>. A value is falsy when it is
  \<^verbatim>\<open>undefined\<close> or the empty string.
\<close>

definition truthy :: "string option \<Rightarrow> bool" where
  "truthy v = (case v of None \<Rightarrow> False | Some s \<Rightarrow> s \<noteq> [])"

text \<open>\<^verbatim>\<open>a || b\<close> on optional strings.\<close>

definition js_or :: "string option \<Rightarrow> string option \<Rightarrow> string option" where
  "js_or a b = (if truthy a then a else b)"

text \<open>\<^verbatim>\<open>a || 'literal'\<close>: the result is a string.\<close>

definition or_literal :: "string option \<Rightarrow> string \<Rightarrow> string" where
  "or_literal a d = (case a of None \<Rightarrow> d | Some s \<Rightarrow> if s \<noteq> [] then s else d)"

text \<open>\<^verbatim>\<open>data[0]\<close>: \<^verbatim>\<open>undefined\<close> on an empty array.\<close>

definition first :: "'a list \<Rightarrow> 'a option" where
  "first rows = (case rows of [] \<Rightarrow> None | r # _ \<Rightarrow> Some r)"

subsection \<open>Pairing codes\<close>

text \<open>
  \<^verbatim>\<open>crypto.randomBytes(4).toString('hex').toUpperCase()\<close>. The byte source is a
  parameter \<open>rng\<close>: the \<open>i\<close>-th byte it delivers.
\<close>

definition randomBytes :: "(nat \<Rightarrow> 8 word) \<Rightarrow> nat \<Rightarrow> 8 word list" where
  "randomBytes rng n = map rng [0..<n]"

definition hex_digit :: "nat \<Rightarrow> char" where
  "hex_digit n = ''0123456789abcdef'' ! (n mod 16)"

definition byte_hex :: "8 word \<Rightarrow> string" where
  "byte_hex b = [hex_digit (unat b div 16), hex_digit (unat b mod 16)]"

definition toString_hex :: "8 word list \<Rightarrow> string" where
  "toString_hex bs = concat (map byte_hex bs)"

definition upper_char :: "char \<Rightarrow> char" where
  "upper_char c =
     (if 97 \<le> (of_char c :: nat) \<and> (of_char c :: nat) \<le> 122
      then char_of ((of_char c :: nat) - 32) else c)"

definition toUpperCase :: "string \<Rightarrow> string" where
  "toUpperCase s = map upper_char s"

definition unique_code_of :: "(nat \<Rightarrow> 8 word) \<Rightarrow> string" where
  "unique_code_of rng = toUpperCase (toString_hex (randomBytes rng 4))"

text \<open>A byte source that delivers the four bytes of \<open>q\<close>, in order.\<close>

fun quad :: "8 word \<times> 8 word \<times> 8 word \<times> 8 word \<Rightarrow> nat \<Rightarrow> 8 word" where
  "quad (a, b, c, d) i = (if i = 0 then a else if i = 1 then b else if i = 2 then c else d)"

text \<open>The alphabet of an uppercase hexadecimal rendering.\<close>

definition upper_hex_digits :: string where
  "upper_hex_digits = ''0123456789ABCDEF''"

subsection \<open>Identities and the Directory Service\<close>

record user_metadata =
  md_full_name :: "string option"
  md_avatar_url :: "string option"

record identity =
  user_id :: string
  user_email :: string
  user_metadata :: "user_metadata option"

text \<open>\<^verbatim>\<open>req.user.user_metadata?.full_name\<close>\<close>

definition metadata_full_name :: "identity \<Rightarrow> string option" where
  "metadata_full_name u = (case user_metadata u of None \<Rightarrow> None | Some m \<Rightarrow> md_full_name m)"

definition metadata_avatar_url :: "identity \<Rightarrow> string option" where
  "metadata_avatar_url u = (case user_metadata u of None \<Rightarrow> None | Some m \<Rightarrow> md_avatar_url m)"

text \<open>The answer of \<^verbatim>\<open>auth.getUser(token)\<close>: \<^verbatim>\<open>{ data: { user }, error }\<close>.\<close>

record user_reply =
  reply_user :: "identity option"
  reply_error :: "string option"

text \<open>
  An answer of any other service call, \<^verbatim>\<open>{ data, error }\<close>: the client resolves
  with the data or with an error that carries a message.
\<close>

datatype 'a reply = Data 'a | Failure string

record session =
  access_token :: string

record directory =
  getUser :: "string \<Rightarrow> user_reply"
  signInWithPassword :: "string option \<Rightarrow> string option \<Rightarrow> session reply"
  signUp :: "string option \<Rightarrow> string option \<Rightarrow> string \<Rightarrow> string \<Rightarrow> unit reply"

subsection \<open>Rows of the Record Store\<close>

datatype device_status = Pending | Active

record device =
  device_id :: string
  owner_id :: string
  unique_code :: string
  device_name :: string
  status :: device_status

record content_row =
  content_id :: string
  content_owner_id :: string
  file_url :: "string option"
  content_type :: "string option"

record playlist_row =
  playlist_device_id :: "string option"
  playlist_content_id :: "string option"
  start_time :: "string option"
  end_time :: "string option"
  order :: "string option"

record user_row =
  users_id :: string
  full_name :: string
  avatar_url :: string

record store =
  devices :: "device list"
  content :: "content_row list"
  playlists :: "playlist_row list"
  users :: "user_row list"

text \<open>
  The object the generate handler inserts. The columns it may set are optional here,
  so that a column the handler leaves out is visibly left out.
\<close>

record device_insert =
  ins_owner_id :: string
  ins_unique_code :: string
  ins_device_name :: string
  ins_status :: "device_status option"

text \<open>
  Modelled from the spec: the \<^verbatim>\<open>devices\<close> table's schema is not in the
  repository; the specification gives the \<^verbatim>\<open>status\<close> column the store-level
  default \<^verbatim>\<open>pending\<close>.
\<close>

definition default_status :: device_status where
  "default_status = Pending"

subsection \<open>The query builder calls\<close>

text \<open>
  Each call takes \<open>fault\<close>, the error the store answers this call with, if any. A call
  that fails changes no row. A filter \<^verbatim>\<open>.eq(column, value)\<close> with a value that
  is \<^verbatim>\<open>undefined\<close> matches no row. Ids are strings here; a value that the
  column's type would refuse makes the call one that fails. A filter that matches no row
  is not a failure: the answer is the empty array.
\<close>

definition eq_filter :: "('r \<Rightarrow> string) \<Rightarrow> string option \<Rightarrow> 'r \<Rightarrow> bool" where
  "eq_filter col v r = (v = Some (col r))"

text \<open>\<^verbatim>\<open>.select('*').eq(col, v)\<close>\<close>

definition select_eq ::
  "string option \<Rightarrow> ('r \<Rightarrow> string) \<Rightarrow> string option \<Rightarrow> 'r list \<Rightarrow> 'r list reply" where
  "select_eq fault col v rows =
     (case fault of Some m \<Rightarrow> Failure m | None \<Rightarrow> Data (filter (eq_filter col v) rows))"

text \<open>
  \<^verbatim>\<open>.single()\<close>: exactly one row, or the store's error. The message is the
  store's; only the fact that it is an error matters to the handlers.
\<close>

definition single_error :: string where
  "single_error = ''JSON object requested, multiple (or no) rows returned''"

definition single :: "'r list reply \<Rightarrow> 'r reply" where
  "single rep =
     (case rep of
        Failure m \<Rightarrow> Failure m
      | Data rows \<Rightarrow> (case rows of [r] \<Rightarrow> Data r | _ \<Rightarrow> Failure single_error))"

text \<open>\<^verbatim>\<open>.update(change).eq(col, v).select()\<close>: the changed rows, and the new table.\<close>

definition update_eq ::
  "string option \<Rightarrow> ('r \<Rightarrow> 'r) \<Rightarrow> ('r \<Rightarrow> string) \<Rightarrow> string option \<Rightarrow> 'r list
     \<Rightarrow> 'r list reply \<times> 'r list" where
  "update_eq fault change col v rows =
     (case fault of
        Some m \<Rightarrow> (Failure m, rows)
      | None \<Rightarrow>
          (Data (map change (filter (eq_filter col v) rows)),
           map (\<lambda>r. if eq_filter col v r then change r else r) rows))"

text \<open>\<^verbatim>\<open>.insert([row]).select()\<close>: the row as stored, and the new table.\<close>

definition insert_row :: "string option \<Rightarrow> 'r \<Rightarrow> 'r list \<Rightarrow> 'r list reply \<times> 'r list" where
  "insert_row fault row rows =
     (case fault of
        Some m \<Rightarrow> (Failure m, rows)
      | None \<Rightarrow> (Data [row], rows @ [row]))"

text \<open>The device row the store makes of an inserted object; \<open>new_id\<close> is the id it assigns.\<close>

definition stored_device :: "string \<Rightarrow> device_insert \<Rightarrow> device" where
  "stored_device new_id p =
     \<lparr>device_id = new_id, owner_id = ins_owner_id p, unique_code = ins_unique_code p,
      device_name = ins_device_name p,
      status = (case ins_status p of None \<Rightarrow> default_status | Some st \<Rightarrow> st)\<rparr>"

subsection \<open>Requests and responses\<close>

record body =
  b_email :: "string option"
  b_password :: "string option"
  b_full_name :: "string option"
  b_avatar_url :: "string option"
  b_device_name :: "string option"
  b_device_id :: "string option"
  b_file_url :: "string option"
  b_content_type :: "string option"
  b_content_id :: "string option"
  b_start_time :: "string option"
  b_end_time :: "string option"
  b_order :: "string option"

datatype route =
    GetRoot | GetLogin | GetSignup | GetDashboard | GetContent | GetPlaylist string
  | GetProfile | GetTestSupabase | PostSignup | PostLogin | PostGenerateCode
  | PostConfirmDevice | PostContent | GetUserProfile | PutUserProfile | PostPlaylist

record request =
  route :: route
  cookies :: "string \<rightharpoonup> string"
  body :: body
  user :: "identity option"

record cookie =
  cookie_name :: string
  cookie_value :: string
  httpOnly :: bool
  secure :: bool
  maxAge :: nat

text \<open>
  The templates and what they are rendered with. \<open>PlaylistView None\<close> is the empty
  object of \<^verbatim>\<open>device || {}\<close>. The two constants of the process environment that
  the dashboard and the test page also receive are left out, as are the log lines.
\<close>

datatype view =
    LoginView | SignupView | TestSupabaseView
  | DashboardView identity "device list"
  | ContentView "content_row list"
  | PlaylistView "device option" "content_row list"
  | ProfileView identity

text \<open>A JSON body; a row that is \<open>None\<close> is \<^verbatim>\<open>res.json(undefined)\<close>.\<close>

datatype json_body =
    ErrorJson string
  | MessageJson string
  | DeviceJson "device option"
  | ContentJson "content_row option"
  | UserJson "user_row option"
  | PlaylistJson "playlist_row option"

text \<open>\<open>Uncaught\<close>: an exception left the handler and no response was sent.\<close>

datatype payload = Redirect string | Render view | Send string | Json json_body | Uncaught

record response =
  status_code :: nat
  set_cookies :: "cookie list"
  payload :: payload

definition redirect :: "string \<Rightarrow> response" where
  "redirect url = \<lparr>status_code = 302, set_cookies = [], payload = Redirect url\<rparr>"

definition render :: "view \<Rightarrow> response" where
  "render v = \<lparr>status_code = 200, set_cookies = [], payload = Render v\<rparr>"

definition send :: "nat \<Rightarrow> string \<Rightarrow> response" where
  "send code txt = \<lparr>status_code = code, set_cookies = [], payload = Send txt\<rparr>"

definition json :: "nat \<Rightarrow> json_body \<Rightarrow> response" where
  "json code b = \<lparr>status_code = code, set_cookies = [], payload = Json b\<rparr>"

definition uncaught :: response where
  "uncaught = \<lparr>status_code = 0, set_cookies = [], payload = Uncaught\<rparr>"

subsection \<open>The Session Guard\<close>

text \<open>
  \<^verbatim>\<open>requireAuth\<close> either answers the request itself or calls \<^verbatim>\<open>next()\<close> on the
  request with \<^verbatim>\<open>req.user\<close> set. The first test is \<^verbatim>\<open>!token\<close>; past it the
  token is a non-empty string, and the \<open>None\<close> branch below is never taken.
\<close>

datatype guard_outcome = Responded response | Next request

definition requireAuth :: "directory \<Rightarrow> request \<Rightarrow> guard_outcome" where
  "requireAuth dir req =
     (let token = cookies req ''auth-token'' in
      if \<not> truthy token then Responded (redirect ''/login'')
      else
        (case token of
           None \<Rightarrow> Responded (redirect ''/login'')
         | Some t \<Rightarrow>
             (let r = getUser dir t in
              if reply_error r \<noteq> None \<or> reply_user r = None
              then Responded (redirect ''/login'')
              else Next (req\<lparr>user := reply_user r\<rparr>))))"

text \<open>
  A route registered as \<^verbatim>\<open>app.get(path, requireAuth, handler)\<close>: the handler runs
  only when the guard calls \<^verbatim>\<open>next()\<close>, and reads \<^verbatim>\<open>req.user\<close>.
\<close>

definition protected ::
  "directory \<Rightarrow> request \<Rightarrow> store \<Rightarrow> (identity \<Rightarrow> response \<times> store) \<Rightarrow> response \<times> store" where
  "protected dir req s handler =
     (case requireAuth dir req of
        Responded r \<Rightarrow> (r, s)
      | Next req' \<Rightarrow> (case user req' of None \<Rightarrow> (uncaught, s) | Some u \<Rightarrow> handler u))"

subsection \<open>Page routes\<close>

definition dashboard :: "string option \<Rightarrow> store \<Rightarrow> identity \<Rightarrow> response" where
  "dashboard fault s u =
     (case select_eq fault owner_id (Some (user_id u)) (devices s) of
        Failure m \<Rightarrow> send 500 ''Error fetching devices''
      | Data ds \<Rightarrow> render (DashboardView u ds))"

definition content_page :: "string option \<Rightarrow> store \<Rightarrow> identity \<Rightarrow> response" where
  "content_page fault s u =
     render (ContentView
       (case select_eq fault content_owner_id (Some (user_id u)) (content s) of
          Failure m \<Rightarrow> []
        | Data rows \<Rightarrow> rows))"

definition playlist_page ::
  "string option \<Rightarrow> string option \<Rightarrow> store \<Rightarrow> identity \<Rightarrow> string \<Rightarrow> response" where
  "playlist_page device_fault content_fault s u deviceId =
     (let device = single (select_eq device_fault device_id (Some deviceId) (devices s));
          rows = select_eq content_fault content_owner_id (Some (user_id u)) (content s)
      in render (PlaylistView
           (case device of Failure m \<Rightarrow> None | Data d \<Rightarrow> Some d)
           (case rows of Failure m \<Rightarrow> [] | Data cs \<Rightarrow> cs)))"

definition profile_page :: "identity \<Rightarrow> response" where
  "profile_page u = render (ProfileView u)"

subsection \<open>Signup and login\<close>

definition signup :: "directory \<Rightarrow> body \<Rightarrow> response" where
  "signup dir b =
     (case signUp dir (b_email b) (b_password b)
             (or_literal (b_full_name b) []) (or_literal (b_avatar_url b) []) of
        Failure m \<Rightarrow> json 400 (ErrorJson m)
      | Data _ \<Rightarrow> json 200 (MessageJson ''Signup successful, please login.''))"

definition login :: "directory \<Rightarrow> body \<Rightarrow> response" where
  "login dir b =
     (case signInWithPassword dir (b_email b) (b_password b) of
        Failure m \<Rightarrow> json 400 (ErrorJson m)
      | Data sess \<Rightarrow>
          \<lparr>status_code = 200,
           set_cookies = [\<lparr>cookie_name = ''auth-token'', cookie_value = access_token sess,
                           httpOnly = True, secure = False, maxAge = 3600000\<rparr>],
           payload = Json (MessageJson ''Login successful'')\<rparr>)"

subsection \<open>Device pairing\<close>

text \<open>The object literal of the insert in \<^verbatim>\<open>POST /api/generate-code\<close>.\<close>

definition generate_insert :: "(nat \<Rightarrow> 8 word) \<Rightarrow> identity \<Rightarrow> body \<Rightarrow> device_insert" where
  "generate_insert rng u b =
     \<lparr>ins_owner_id = user_id u, ins_unique_code = unique_code_of rng,
      ins_device_name = or_literal (b_device_name b) ''New Device'', ins_status = None\<rparr>"

text \<open>
  \<open>throws\<close>: the awaited insert rejects, which the handler's \<^verbatim>\<open>catch\<close> answers.
  The store client resolves every call, with rows or with an error, so this is the
  case of a failure below it.
\<close>

definition generate_code ::
  "(nat \<Rightarrow> 8 word) \<Rightarrow> bool \<Rightarrow> string option \<Rightarrow> string \<Rightarrow> store \<Rightarrow> identity \<Rightarrow> body
     \<Rightarrow> response \<times> store" where
  "generate_code rng throws fault new_id s u b =
     (if throws then (json 500 (ErrorJson ''Unexpected error occurred''), s)
      else
        (case insert_row fault (stored_device new_id (generate_insert rng u b)) (devices s) of
           (Failure m, ds) \<Rightarrow> (json 500 (ErrorJson m), s\<lparr>devices := ds\<rparr>)
         | (Data rows, ds) \<Rightarrow> (json 201 (DeviceJson (first rows)), s\<lparr>devices := ds\<rparr>)))"

definition confirm_device :: "string option \<Rightarrow> store \<Rightarrow> body \<Rightarrow> response \<times> store" where
  "confirm_device fault s b =
     (case update_eq fault (\<lambda>d. d\<lparr>status := Active\<rparr>) device_id (b_device_id b) (devices s) of
        (Failure m, ds) \<Rightarrow> (json 500 (ErrorJson m), s\<lparr>devices := ds\<rparr>)
      | (Data rows, ds) \<Rightarrow> (json 200 (DeviceJson (first rows)), s\<lparr>devices := ds\<rparr>))"

subsection \<open>Content, profile and playlist handlers\<close>

definition create_content ::
  "string option \<Rightarrow> string \<Rightarrow> store \<Rightarrow> identity \<Rightarrow> body \<Rightarrow> response \<times> store" where
  "create_content fault new_id s u b =
     (case insert_row fault
             \<lparr>content_id = new_id, content_owner_id = user_id u,
              file_url = b_file_url b, content_type = b_content_type b\<rparr> (content s) of
        (Failure m, cs) \<Rightarrow> (json 500 (ErrorJson m), s\<lparr>content := cs\<rparr>)
      | (Data rows, cs) \<Rightarrow> (json 201 (ContentJson (first rows)), s\<lparr>content := cs\<rparr>))"

definition get_profile :: "string option \<Rightarrow> store \<Rightarrow> identity \<Rightarrow> response" where
  "get_profile fault s u =
     (case single (select_eq fault users_id (Some (user_id u)) (users s)) of
        Failure m \<Rightarrow> json 500 (ErrorJson m)
      | Data r \<Rightarrow> json 200 (UserJson (Some r)))"

text \<open>
  \<^verbatim>\<open>auth.updateUser({ data })\<close> is called on the shared client of line 31, with no
  token of the caller: whose metadata it changes, if any, is the Directory Service's
  matter and is not part of the model. The handler reads only the error of the answer.
\<close>

definition updateUser :: "string option \<Rightarrow> string \<Rightarrow> string \<Rightarrow> string option" where
  "updateUser fault name avatar = fault"

text \<open>
  \<^verbatim>\<open>PUT /api/user/profile\<close>. An error of the metadata update is logged and the
  request is answered as without it.
\<close>

definition update_profile ::
  "string option \<Rightarrow> string option \<Rightarrow> store \<Rightarrow> identity \<Rightarrow> body \<Rightarrow> response \<times> store" where
  "update_profile fault auth_fault s u b =
     (let name = or_literal (js_or (b_full_name b) (metadata_full_name u)) [];
          avatar = or_literal (js_or (b_avatar_url b) (metadata_avatar_url u)) []
      in case update_eq fault (\<lambda>r. r\<lparr>full_name := name, avatar_url := avatar\<rparr>)
                users_id (Some (user_id u)) (users s) of
           (Failure m, us) \<Rightarrow> (json 500 (ErrorJson m), s\<lparr>users := us\<rparr>)
         | (Data rows, us) \<Rightarrow>
             (let authError = updateUser auth_fault name avatar in
              if authError \<noteq> None
              then (json 200 (UserJson (first rows)), s\<lparr>users := us\<rparr>)
              else (json 200 (UserJson (first rows)), s\<lparr>users := us\<rparr>)))"

definition create_playlist :: "string option \<Rightarrow> store \<Rightarrow> body \<Rightarrow> response \<times> store" where
  "create_playlist fault s b =
     (case insert_row fault
             \<lparr>playlist_device_id = b_device_id b, playlist_content_id = b_content_id b,
              start_time = b_start_time b, end_time = b_end_time b, order = b_order b\<rparr>
             (playlists s) of
        (Failure m, ps) \<Rightarrow> (json 500 (ErrorJson m), s\<lparr>playlists := ps\<rparr>)
      | (Data rows, ps) \<Rightarrow> (json 201 (PlaylistJson (first rows)), s\<lparr>playlists := ps\<rparr>))"

subsection \<open>The router\<close>

text \<open>
  What the outside world contributes to one request: the random bytes, the errors of
  the first and the second external call of the handler, whether the awaited insert
  rejects, and the id the store assigns to an inserted row.
\<close>

record env =
  env_rng :: "nat \<Rightarrow> 8 word"
  env_throws :: bool
  env_fault :: "string option"
  env_fault2 :: "string option"
  env_new_id :: string

definition handle :: "directory \<Rightarrow> env \<Rightarrow> store \<Rightarrow> request \<Rightarrow> response \<times> store" where
  "handle dir e s req =
     (case route req of
        GetRoot \<Rightarrow> (redirect ''/dashboard'', s)
      | GetLogin \<Rightarrow> (render LoginView, s)
      | GetSignup \<Rightarrow> (render SignupView, s)
      | GetDashboard \<Rightarrow> protected dir req s (\<lambda>u. (dashboard (env_fault e) s u, s))
      | GetContent \<Rightarrow> protected dir req s (\<lambda>u. (content_page (env_fault e) s u, s))
      | GetPlaylist deviceId \<Rightarrow>
          protected dir req s
            (\<lambda>u. (playlist_page (env_fault e) (env_fault2 e) s u deviceId, s))
      | GetProfile \<Rightarrow> protected dir req s (\<lambda>u. (profile_page u, s))
      | GetTestSupabase \<Rightarrow> (render TestSupabaseView, s)
      | PostSignup \<Rightarrow> (signup dir (body req), s)
      | PostLogin \<Rightarrow> (login dir (body req), s)
      | PostGenerateCode \<Rightarrow>
          protected dir req s
            (\<lambda>u. generate_code (env_rng e) (env_throws e) (env_fault e) (env_new_id e) s u
                   (body req))
      | PostConfirmDevice \<Rightarrow> confirm_device (env_fault e) s (body req)
      | PostContent \<Rightarrow>
          protected dir req s (\<lambda>u. create_content (env_fault e) (env_new_id e) s u (body req))
      | GetUserProfile \<Rightarrow> protected dir req s (\<lambda>u. (get_profile (env_fault e) s u, s))
      | PutUserProfile \<Rightarrow>
          protected dir req s
            (\<lambda>u. update_profile (env_fault e) (env_fault2 e) s u (body req))
      | PostPlaylist \<Rightarrow> protected dir req s (\<lambda>u. create_playlist (env_fault e) s (body req)))"

text \<open>A run of the server: requests served one after the other.\<close>

fun serve :: "store \<Rightarrow> (directory \<times> env \<times> request) list \<Rightarrow> store" where
  "serve s [] = s"
| "serve s ((dir, e, req) # rest) = serve (snd (handle dir e s req)) rest"

subsection \<open>Sample data\<close>

text \<open>Concrete identities, a Directory Service, requests and stores to run the model on.\<close>

definition alice :: identity where
  "alice = \<lparr>user_id = ''u-alice'', user_email = ''alice@example.com'',
            user_metadata = Some \<lparr>md_full_name = Some ''Alice'', md_avatar_url = None\<rparr>\<rparr>"

definition bob :: identity where
  "bob = \<lparr>user_id = ''u-bob'', user_email = ''bob@example.com'', user_metadata = None\<rparr>"

definition sample_directory :: directory where
  "sample_directory =
     \<lparr>getUser = (\<lambda>t. if t = ''tok-alice'' then \<lparr>reply_user = Some alice, reply_error = None\<rparr>
                     else if t = ''tok-bob'' then \<lparr>reply_user = Some bob, reply_error = None\<rparr>
                     else \<lparr>reply_user = None, reply_error = Some ''invalid JWT''\<rparr>),
      signInWithPassword =
        (\<lambda>e p. if e = Some ''alice@example.com'' \<and> p = Some ''secret123''
               then Data \<lparr>access_token = ''tok-alice''\<rparr>
               else Failure ''Invalid login credentials''),
      signUp = (\<lambda>e p n a. Data ())\<rparr>"

text \<open>A Directory Service that resolves every token, the empty one too, to one user.\<close>

definition lenient_directory :: directory where
  "lenient_directory =
     sample_directory\<lparr>getUser := (\<lambda>t. \<lparr>reply_user = Some alice, reply_error = None\<rparr>)\<rparr>"

definition empty_body :: body where
  "empty_body =
     \<lparr>b_email = None, b_password = None, b_full_name = None, b_avatar_url = None,
      b_device_name = None, b_device_id = None, b_file_url = None, b_content_type = None,
      b_content_id = None, b_start_time = None, b_end_time = None, b_order = None\<rparr>"

definition sample_request :: "route \<Rightarrow> string option \<Rightarrow> body \<Rightarrow> request" where
  "sample_request r token b =
     \<lparr>route = r,
      cookies = (case token of None \<Rightarrow> Map.empty | Some t \<Rightarrow> [''auth-token'' \<mapsto> t]),
      body = b, user = None\<rparr>"

definition sample_rng :: "nat \<Rightarrow> 8 word" where
  "sample_rng i = (if i = 0 then 0x1A else if i = 1 then 0xB2 else if i = 2 then 0x0C else 0xFF)"

definition sample_env :: env where
  "sample_env =
     \<lparr>env_rng = sample_rng, env_throws = False, env_fault = None, env_fault2 = None,
      env_new_id = ''d-2''\<rparr>"

definition lobby_tv :: device where
  "lobby_tv =
     \<lparr>device_id = ''d-1'', owner_id = ''u-alice'', unique_code = ''0A1B2C3D'',
      device_name = ''Lobby TV'', status = Pending\<rparr>"

definition sample_store :: store where
  "sample_store =
     \<lparr>devices = [lobby_tv], content = [], playlists = [],
      users = [\<lparr>users_id = ''u-alice'', full_name = ''Alice'', avatar_url = []\<rparr>]\<rparr>"

definition active_store :: store where
  "active_store = sample_store\<lparr>devices := [lobby_tv\<lparr>status := Active\<rparr>]\<rparr>"

definition sample_run :: "(directory \<times> env \<times> request) list" where
  "sample_run =
     [(sample_directory, sample_env,
       sample_request PostGenerateCode (Some ''tok-alice'')
         (empty_body\<lparr>b_device_name := Some ''Kiosk''\<rparr>)),
      (sample_directory, sample_env,
       sample_request PostConfirmDevice None (empty_body\<lparr>b_device_id := Some ''d-1''\<rparr>)),
      (sample_directory, sample_env,
       sample_request PutUserProfile (Some ''tok-alice'')
         (empty_body\<lparr>b_avatar_url := Some ''a.png''\<rparr>))]"

section \<open>Facts about the sample data\<close>

lemma sample_request_sel:
  "route (sample_request r t b) = r"
  "body (sample_request r t b) = b"
  "user ((sample_request r t b)\<lparr>user := u\<rparr>) = u"
  by (simp_all add: sample_request_def)

lemma requireAuth_alice:
  "requireAuth sample_directory (sample_request r (Some ''tok-alice'') b)
     = Next ((sample_request r (Some ''tok-alice'') b)\<lparr>user := Some alice\<rparr>)"
  by (simp add: requireAuth_def sample_request_def sample_directory_def truthy_def)

lemma requireAuth_bob:
  "requireAuth sample_directory (sample_request r (Some ''tok-bob'') b)
     = Next ((sample_request r (Some ''tok-bob'') b)\<lparr>user := Some bob\<rparr>)"
  by (simp add: requireAuth_def sample_request_def sample_directory_def truthy_def)

section \<open>The pairing code\<close>

lemma randomBytes_4: "randomBytes rng 4 = [rng 0, rng 1, rng 2, rng 3]"
proof -
  have "[0..<4] = [0, 1, 2, Suc 2]" by (simp add: upt_rec)
  then show ?thesis by (simp add: randomBytes_def numeral_3_eq_3)
qed

lemma upper_hex_table:
  "map (\<lambda>n. upper_char (hex_digit n)) [0..<16] = upper_hex_digits"
  by (simp add: upt_rec upper_char_def hex_digit_def upper_hex_digits_def char_of_eq_iff)

lemma upper_hex_digits_length: "length upper_hex_digits = 16"
  by (simp add: upper_hex_digits_def)

lemma upper_hex_digits_distinct: "distinct upper_hex_digits"
  by (simp add: upper_hex_digits_def)

lemma upper_hex_digit: "upper_char (hex_digit n) = upper_hex_digits ! (n mod 16)"
proof -
  have m: "n mod 16 < 16" by simp
  have "hex_digit n = hex_digit (n mod 16)" by (simp add: hex_digit_def)
  then have "upper_char (hex_digit n) = map (\<lambda>n. upper_char (hex_digit n)) [0..<16] ! (n mod 16)"
    using m by (simp del: upt_Suc)
  then show ?thesis by (simp only: upper_hex_table)
qed

lemma byte_nibbles: "unat (b :: 8 word) div 16 < 16"
proof -
  have "unat b < 2 ^ 8" using unsigned_less [of b] by simp
  then show ?thesis by simp
qed

lemma upper_byte_hex:
  "toUpperCase (byte_hex b) =
     [upper_hex_digits ! (unat b div 16), upper_hex_digits ! (unat b mod 16)]"
  using byte_nibbles [of b] by (simp add: toUpperCase_def byte_hex_def upper_hex_digit)

lemma unique_code_of_eq:
  "unique_code_of rng =
     toUpperCase (byte_hex (rng 0)) @ toUpperCase (byte_hex (rng 1))
       @ toUpperCase (byte_hex (rng 2)) @ toUpperCase (byte_hex (rng 3))"
  by (simp add: unique_code_of_def randomBytes_4 toString_hex_def toUpperCase_def)

lemma hex_nth_inj:
  assumes "i < 16" "j < 16" "upper_hex_digits ! i = upper_hex_digits ! j"
  shows "i = j"
  using assms nth_eq_iff_index_eq [OF upper_hex_digits_distinct, of i j]
  by (simp add: upper_hex_digits_length)

lemma upper_byte_hex_inj:
  assumes "toUpperCase (byte_hex a) = toUpperCase (byte_hex b)"
  shows "a = b"
proof -
  have ma: "unat a mod 16 < 16" and mb: "unat b mod 16 < 16" by simp_all
  from assms have e1: "upper_hex_digits ! (unat a div 16) = upper_hex_digits ! (unat b div 16)"
    and e2: "upper_hex_digits ! (unat a mod 16) = upper_hex_digits ! (unat b mod 16)"
    by (simp_all only: upper_byte_hex list.inject)
  have "unat a div 16 = unat b div 16"
    by (rule hex_nth_inj [OF byte_nibbles byte_nibbles e1])
  moreover have "unat a mod 16 = unat b mod 16" by (rule hex_nth_inj [OF ma mb e2])
  ultimately have "unat a = unat b" by (metis div_mult_mod_eq)
  then show ?thesis by (simp add: word_unat_eq_iff)
qed

lemma upper_byte_hex_chars:
  assumes "c \<in> set (toUpperCase (byte_hex b))"
  shows "c \<in> set upper_hex_digits"
proof -
  have m: "unat b mod 16 < length upper_hex_digits"
    by (simp add: upper_hex_digits_length)
  have d: "unat b div 16 < length upper_hex_digits"
    using byte_nibbles [of b] by (simp add: upper_hex_digits_length)
  from assms have "c = upper_hex_digits ! (unat b div 16) \<or> c = upper_hex_digits ! (unat b mod 16)"
    by (simp add: upper_byte_hex)
  then show ?thesis using nth_mem [OF d] nth_mem [OF m] by blast
qed

lemma upper_byte_hex_length: "length (toUpperCase (byte_hex b)) = 2"
  by (simp add: toUpperCase_def byte_hex_def)

lemma append_pairs_inj:
  fixes a b c d a' b' c' d' :: string
  assumes "length a = 2" "length a' = 2" "length b = 2" "length b' = 2"
    "length c = 2" "length c' = 2" "a @ b @ c @ d = a' @ b' @ c' @ d'"
  shows "a = a' \<and> b = b' \<and> c = c' \<and> d = d'"
  using assms by simp

lemma unique_code_length: "length (unique_code_of rng) = 8"
  by (simp add: unique_code_of_eq upper_byte_hex_length)

lemma unique_code_chars:
  assumes "c \<in> set (unique_code_of rng)"
  shows "c \<in> set upper_hex_digits"
proof -
  from assms
  have "c \<in> set (toUpperCase (byte_hex (rng 0))) \<or> c \<in> set (toUpperCase (byte_hex (rng 1)))
     \<or> c \<in> set (toUpperCase (byte_hex (rng 2))) \<or> c \<in> set (toUpperCase (byte_hex (rng 3)))"
    by (simp only: unique_code_of_eq set_append Un_iff)
  then show ?thesis using upper_byte_hex_chars by blast
qed

lemma unique_code_inj:
  "unique_code_of rng = unique_code_of rng' \<longleftrightarrow> (\<forall>i < 4. rng i = rng' i)"
proof
  assume e: "unique_code_of rng = unique_code_of rng'"
  have "toUpperCase (byte_hex (rng 0)) = toUpperCase (byte_hex (rng' 0))
      \<and> toUpperCase (byte_hex (rng 1)) = toUpperCase (byte_hex (rng' 1))
      \<and> toUpperCase (byte_hex (rng 2)) = toUpperCase (byte_hex (rng' 2))
      \<and> toUpperCase (byte_hex (rng 3)) = toUpperCase (byte_hex (rng' 3))"
    by (rule append_pairs_inj [OF upper_byte_hex_length upper_byte_hex_length
          upper_byte_hex_length upper_byte_hex_length upper_byte_hex_length
          upper_byte_hex_length e [unfolded unique_code_of_eq]])
  then have r: "rng 0 = rng' 0 \<and> rng 1 = rng' 1 \<and> rng 2 = rng' 2 \<and> rng 3 = rng' 3"
    using upper_byte_hex_inj by blast
  show "\<forall>i < 4. rng i = rng' i"
  proof (intro allI impI)
    fix i :: nat assume "i < 4"
    then have "i = 0 \<or> i = 1 \<or> i = 2 \<or> i = 3" by arith
    then show "rng i = rng' i" using r by auto
  qed
next
  assume "\<forall>i < 4. rng i = rng' i"
  then show "unique_code_of rng = unique_code_of rng'"
    by (simp add: unique_code_of_eq)
qed

text \<open>Every pair of uppercase hexadecimal digits is the rendering of a byte.\<close>

lemma hex_pair_byte:
  assumes "c \<in> set upper_hex_digits" and "c' \<in> set upper_hex_digits"
  shows "\<exists>b. toUpperCase (byte_hex b) = [c, c']"
proof -
  from assms obtain i j where i: "i < 16" "upper_hex_digits ! i = c"
    and j: "j < 16" "upper_hex_digits ! j = c'"
    by (auto simp: in_set_conv_nth upper_hex_digits_length)
  let ?b = "of_nat (16 * i + j) :: 8 word"
  have "16 * i + j < 256" using i(1) j(1) by arith
  then have u: "unat ?b = 16 * i + j" by (simp only: unat_of_nat) simp
  have "(16 * i + j) div 16 = i" and "(16 * i + j) mod 16 = j" using j(1) by simp_all
  then have "toUpperCase (byte_hex ?b) = [c, c']"
    by (simp only: upper_byte_hex u i(2) j(2))
  then show ?thesis ..
qed

lemma quad_code:
  "unique_code_of (quad (a, b, c, d))
     = toUpperCase (byte_hex a) @ toUpperCase (byte_hex b)
         @ toUpperCase (byte_hex c) @ toUpperCase (byte_hex d)"
  by (simp add: unique_code_of_eq)

lemma code_of_one_quad:
  assumes "length code = 8" and "set code \<subseteq> set upper_hex_digits"
  shows "\<exists>!q. unique_code_of (quad q) = code"
proof -
  from assms(1) obtain c0 c1 c2 c3 c4 c5 c6 c7 where
    code: "code = [c0, c1, c2, c3, c4, c5, c6, c7]"
    by (auto simp: numeral_eq_Suc length_Suc_conv)
  with assms(2) have m: "c0 \<in> set upper_hex_digits" "c1 \<in> set upper_hex_digits"
      "c2 \<in> set upper_hex_digits" "c3 \<in> set upper_hex_digits"
      "c4 \<in> set upper_hex_digits" "c5 \<in> set upper_hex_digits"
      "c6 \<in> set upper_hex_digits" "c7 \<in> set upper_hex_digits"
    by simp_all
  obtain a where a: "toUpperCase (byte_hex a) = [c0, c1]" using hex_pair_byte [OF m(1,2)] ..
  obtain b where b: "toUpperCase (byte_hex b) = [c2, c3]" using hex_pair_byte [OF m(3,4)] ..
  obtain c where c: "toUpperCase (byte_hex c) = [c4, c5]" using hex_pair_byte [OF m(5,6)] ..
  obtain d where d: "toUpperCase (byte_hex d) = [c6, c7]" using hex_pair_byte [OF m(7,8)] ..
  have ex: "unique_code_of (quad (a, b, c, d)) = code"
    by (simp only: quad_code a b c d code append_Cons append_Nil)
  show ?thesis
  proof (rule ex1I [of _ "(a, b, c, d)"])
    show "unique_code_of (quad (a, b, c, d)) = code" by (fact ex)
  next
    fix q assume q: "unique_code_of (quad q) = code"
    obtain a' b' c' d' where q': "q = (a', b', c', d')" by (cases q) auto
    from q ex have "unique_code_of (quad (a', b', c', d')) = unique_code_of (quad (a, b, c, d))"
      by (simp only: q')
    then have all: "\<forall>i < 4. quad (a', b', c', d') i = quad (a, b, c, d) i"
      by (simp only: unique_code_inj)
    from all [rule_format, of 0] have "a' = a" by simp
    moreover from all [rule_format, of 1] have "b' = b" by simp
    moreover from all [rule_format, of 2] have "c' = c" by simp
    moreover from all [rule_format, of 3] have "d' = d" by simp
    ultimately show "q = (a, b, c, d)" by (simp add: q')
  qed
qed

lemma generate_code_resolved:
  "generate_code rng False None new_id s u b
     = (json 201 (DeviceJson (Some (stored_device new_id (generate_insert rng u b)))),
        s\<lparr>devices := devices s @ [stored_device new_id (generate_insert rng u b)]\<rparr>)"
  by (simp add: generate_code_def insert_row_def first_def)

lemma stored_device_code:
  "unique_code (stored_device new_id (generate_insert rng u b)) = unique_code_of rng"
  by (simp add: stored_device_def generate_insert_def)

text \<open>
  Claim C3. Every call of the generate operation that the store answers without error
  gives the response 201 with the one row it has appended to the devices, and the
  pairing code of that row is the uppercase hexadecimal rendering of the first 4 bytes
  of the random source: 8 characters long, each an uppercase hexadecimal digit, the
  same for every caller, request body, store and assigned id. This holds of the handler
  and of the route behind the guard. The rendering loses nothing of the 4 bytes: two
  sources give the same code exactly when they agree on these bytes, and every string
  of 8 uppercase hexadecimal digits is the code of exactly one quadruple of bytes, so
  that uniformly drawn bytes give each of the 2^32 codes with the same probability.
  The object the handler inserts carries this code in every call.
\<close>

theorem unique_code_format:
  "(\<forall>new_id s u b. \<exists>row.
       generate_code rng False None new_id s u b
         = (json 201 (DeviceJson (Some row)), s\<lparr>devices := devices s @ [row]\<rparr>)
       \<and> unique_code row = unique_code_of rng
       \<and> length (unique_code row) = 8
       \<and> (\<forall>c \<in> set (unique_code row). c \<in> set upper_hex_digits))
   \<and> (\<forall>dir (e :: env) s req req' u.
         route req = PostGenerateCode \<and> requireAuth dir req = Next req' \<and> user req' = Some u
         \<and> \<not> env_throws e \<and> env_fault e = None \<and> env_rng e = rng
       \<longrightarrow> (\<exists>row. handle dir e s req
                    = (json 201 (DeviceJson (Some row)), s\<lparr>devices := devices s @ [row]\<rparr>)
              \<and> unique_code row = unique_code_of rng
              \<and> length (unique_code row) = 8
              \<and> (\<forall>c \<in> set (unique_code row). c \<in> set upper_hex_digits)))
   \<and> (unique_code_of rng = unique_code_of rng' \<longleftrightarrow> (\<forall>i < 4. rng i = rng' i))
   \<and> (\<forall>code. length code = 8 \<and> set code \<subseteq> set upper_hex_digits
         \<longrightarrow> (\<exists>!q. unique_code_of (quad q) = code))
   \<and> (\<forall>u b. ins_unique_code (generate_insert rng u b) = unique_code_of rng)"
proof (intro conjI)
  have row: "unique_code (stored_device new_id (generate_insert rng u b)) = unique_code_of rng
      \<and> length (unique_code (stored_device new_id (generate_insert rng u b))) = 8
      \<and> (\<forall>c \<in> set (unique_code (stored_device new_id (generate_insert rng u b))).
            c \<in> set upper_hex_digits)" for new_id u b
    using unique_code_chars [of _ rng] by (simp add: stored_device_code unique_code_length)
  show first: "\<forall>new_id s u b. \<exists>row.
       generate_code rng False None new_id s u b
         = (json 201 (DeviceJson (Some row)), s\<lparr>devices := devices s @ [row]\<rparr>)
       \<and> unique_code row = unique_code_of rng
       \<and> length (unique_code row) = 8
       \<and> (\<forall>c \<in> set (unique_code row). c \<in> set upper_hex_digits)"
    using generate_code_resolved row by blast
  show "\<forall>dir (e :: env) s req req' u.
         route req = PostGenerateCode \<and> requireAuth dir req = Next req' \<and> user req' = Some u
         \<and> \<not> env_throws e \<and> env_fault e = None \<and> env_rng e = rng
       \<longrightarrow> (\<exists>row. handle dir e s req
                    = (json 201 (DeviceJson (Some row)), s\<lparr>devices := devices s @ [row]\<rparr>)
              \<and> unique_code row = unique_code_of rng
              \<and> length (unique_code row) = 8
              \<and> (\<forall>c \<in> set (unique_code row). c \<in> set upper_hex_digits))"
  proof (intro allI impI)
    fix dir and e :: env and s req req' u
    assume h: "route req = PostGenerateCode \<and> requireAuth dir req = Next req'
        \<and> user req' = Some u \<and> \<not> env_throws e \<and> env_fault e = None \<and> env_rng e = rng"
    then have "handle dir e s req = generate_code rng False None (env_new_id e) s u (body req)"
      by (simp add: handle_def protected_def)
    with first show "\<exists>row. handle dir e s req
                    = (json 201 (DeviceJson (Some row)), s\<lparr>devices := devices s @ [row]\<rparr>)
              \<and> unique_code row = unique_code_of rng
              \<and> length (unique_code row) = 8
              \<and> (\<forall>c \<in> set (unique_code row). c \<in> set upper_hex_digits)"
      by simp
  qed
  show "unique_code_of rng = unique_code_of rng' \<longleftrightarrow> (\<forall>i < 4. rng i = rng' i)"
    by (rule unique_code_inj)
  show "\<forall>code. length code = 8 \<and> set code \<subseteq> set upper_hex_digits
         \<longrightarrow> (\<exists>!q. unique_code_of (quad q) = code)"
    using code_of_one_quad by blast
  show "\<forall>u b. ins_unique_code (generate_insert rng u b) = unique_code_of rng"
    by (simp add: generate_insert_def)
qed

lemma sample_code: "unique_code_of sample_rng = ''1AB20CFF''"
  by (simp add: unique_code_of_eq upper_byte_hex sample_rng_def upper_hex_digits_def)

theorem unique_code_format_witness:
  "(\<exists>row. handle sample_directory sample_env sample_store
             (sample_request PostGenerateCode (Some ''tok-alice'') empty_body)
           = (json 201 (DeviceJson (Some row)),
              sample_store\<lparr>devices := devices sample_store @ [row]\<rparr>)
         \<and> unique_code row = ''1AB20CFF''
         \<and> length (unique_code row) = 8
         \<and> list_all (\<lambda>c. c \<in> set upper_hex_digits) (unique_code row))
   \<and> unique_code_of sample_rng \<noteq> unique_code_of (\<lambda>i. 0)
   \<and> (\<exists>q. unique_code_of (quad q) = ''0A1B2C3D'')"
proof -
  let ?req = "sample_request PostGenerateCode (Some ''tok-alice'') empty_body"
  note t = unique_code_format [of sample_rng "\<lambda>i. 0"]
  have h: "route ?req = PostGenerateCode
      \<and> requireAuth sample_directory ?req = Next (?req\<lparr>user := Some alice\<rparr>)
      \<and> user (?req\<lparr>user := Some alice\<rparr>) = Some alice
      \<and> \<not> env_throws sample_env \<and> env_fault sample_env = None
      \<and> env_rng sample_env = sample_rng"
    by (simp add: requireAuth_alice sample_request_sel sample_env_def)
  have "\<exists>row. handle sample_directory sample_env sample_store ?req
             = (json 201 (DeviceJson (Some row)),
                sample_store\<lparr>devices := devices sample_store @ [row]\<rparr>)
         \<and> unique_code row = unique_code_of sample_rng
         \<and> length (unique_code row) = 8
         \<and> (\<forall>c \<in> set (unique_code row). c \<in> set upper_hex_digits)"
    by (rule t [THEN conjunct2, THEN conjunct1, rule_format, OF h])
  then have 1: "\<exists>row. handle sample_directory sample_env sample_store ?req
             = (json 201 (DeviceJson (Some row)),
                sample_store\<lparr>devices := devices sample_store @ [row]\<rparr>)
         \<and> unique_code row = ''1AB20CFF''
         \<and> length (unique_code row) = 8
         \<and> list_all (\<lambda>c. c \<in> set upper_hex_digits) (unique_code row)"
    by (simp only: sample_code list_all_iff)
  have n: "\<not> (\<forall>i < 4. sample_rng i = (\<lambda>i. 0 :: 8 word) i)"
    by (auto simp: sample_rng_def intro!: exI [of _ 0])
  have 2: "unique_code_of sample_rng \<noteq> unique_code_of (\<lambda>i. 0)"
    using t [THEN conjunct2, THEN conjunct2, THEN conjunct1] n by (simp only:) simp
  have c: "length ''0A1B2C3D'' = 8 \<and> set ''0A1B2C3D'' \<subseteq> set upper_hex_digits"
    by (simp add: upper_hex_digits_def)
  have "\<exists>!q. unique_code_of (quad q) = ''0A1B2C3D''"
    by (rule t [THEN conjunct2, THEN conjunct2, THEN conjunct2, THEN conjunct1,
          rule_format, OF c])
  then have 3: "\<exists>q. unique_code_of (quad q) = ''0A1B2C3D''" by (rule ex1_implies_ex)
  from 1 2 3 show ?thesis by (intro conjI)
qed

section \<open>The Session Guard\<close>

text \<open>
  Claim C1, as stated, fails where the cookie is present with an empty value: the guard
  tests \<^verbatim>\<open>!token\<close>, so it redirects without asking the Directory Service, also
  when the service would resolve that token to a user. Here the cookie header is
  \<^verbatim>\<open>auth-token=\<close> and the service resolves every token.
\<close>

theorem requireAuth_empty_cookie:
  "cookies (sample_request GetProfile (Some []) empty_body) ''auth-token'' = Some []
   \<and> getUser lenient_directory [] = \<lparr>reply_user = Some alice, reply_error = None\<rparr>
   \<and> requireAuth lenient_directory (sample_request GetProfile (Some []) empty_body)
       = Responded (redirect ''/login'')
   \<and> handle lenient_directory sample_env sample_store
        (sample_request GetProfile (Some []) empty_body) = (redirect ''/login'', sample_store)"
  by (simp add: sample_request_def lenient_directory_def sample_directory_def requireAuth_def
      truthy_def handle_def protected_def)

text \<open>
  Claim C1, amended. If the cookie is absent or empty, or if it holds a token for which
  the Directory Service answers with an error or with no user, the guard answers with
  the same redirect to the login page and the downstream handler is not run, whatever
  it is. If the cookie holds a non-empty token that the service resolves to a user
  without error, the guard sets \<^verbatim>\<open>req.user\<close> to that user, and the route's
  answer is the downstream handler's answer for that user.
\<close>

theorem requireAuth_guard:
  "(cookies req ''auth-token'' = None \<or> cookies req ''auth-token'' = Some []
      \<longrightarrow> requireAuth dir req = Responded (redirect ''/login'')
          \<and> (\<forall>h. protected dir req s h = (redirect ''/login'', s)))
   \<and> (\<forall>t. cookies req ''auth-token'' = Some t
          \<and> (reply_error (getUser dir t) \<noteq> None \<or> reply_user (getUser dir t) = None)
        \<longrightarrow> requireAuth dir req = Responded (redirect ''/login'')
            \<and> (\<forall>h. protected dir req s h = (redirect ''/login'', s)))
   \<and> (\<forall>t u. cookies req ''auth-token'' = Some t \<and> t \<noteq> []
          \<and> reply_error (getUser dir t) = None \<and> reply_user (getUser dir t) = Some u
        \<longrightarrow> requireAuth dir req = Next (req\<lparr>user := Some u\<rparr>)
            \<and> (\<forall>h. protected dir req s h = h u))"
  by (auto simp: requireAuth_def protected_def truthy_def Let_def)

theorem requireAuth_guard_witness:
  "requireAuth sample_directory (sample_request GetProfile None empty_body)
     = Responded (redirect ''/login'')
   \<and> requireAuth sample_directory (sample_request GetProfile (Some ''expired'') empty_body)
     = Responded (redirect ''/login'')
   \<and> requireAuth sample_directory (sample_request GetProfile (Some ''tok-alice'') empty_body)
     = Next ((sample_request GetProfile (Some ''tok-alice'') empty_body)\<lparr>user := Some alice\<rparr>)
   \<and> protected sample_directory (sample_request GetProfile (Some ''tok-alice'') empty_body)
        sample_store (\<lambda>u. (profile_page u, sample_store))
     = (render (ProfileView alice), sample_store)"
proof -
  let ?anon = "sample_request GetProfile None empty_body"
  let ?bad = "sample_request GetProfile (Some ''expired'') empty_body"
  let ?ok = "sample_request GetProfile (Some ''tok-alice'') empty_body"
  have a: "cookies ?anon ''auth-token'' = None" by (simp add: sample_request_def)
  have b: "cookies ?bad ''auth-token'' = Some ''expired''
      \<and> (reply_error (getUser sample_directory ''expired'') \<noteq> None
           \<or> reply_user (getUser sample_directory ''expired'') = None)"
    by (simp add: sample_request_def sample_directory_def)
  have c: "cookies ?ok ''auth-token'' = Some ''tok-alice'' \<and> ''tok-alice'' \<noteq> []
      \<and> reply_error (getUser sample_directory ''tok-alice'') = None
      \<and> reply_user (getUser sample_directory ''tok-alice'') = Some alice"
    by (simp add: sample_request_def sample_directory_def)
  have 1: "requireAuth sample_directory ?anon = Responded (redirect ''/login'')"
    using requireAuth_guard [of ?anon sample_directory sample_store] a by blast
  have 2: "requireAuth sample_directory ?bad = Responded (redirect ''/login'')"
    using requireAuth_guard [of ?bad sample_directory sample_store] b by blast
  have 3: "requireAuth sample_directory ?ok = Next (?ok\<lparr>user := Some alice\<rparr>)
      \<and> (\<forall>h. protected sample_directory ?ok sample_store h = h alice)"
    using requireAuth_guard [of ?ok sample_directory sample_store] c by blast
  show ?thesis using 1 2 3 by (simp add: profile_page_def)
qed

section \<open>Login\<close>

text \<open>
  Claim C9. When the Directory Service accepts the credentials, the login route answers
  200 and sets exactly one cookie: its name is \<^verbatim>\<open>auth-token\<close>, its value the
  service's access token unchanged, HTTP-only, not secure, max age 3600000 ms. When the
  service rejects them, the answer is 400 with the service's error message as JSON and
  no cookie. The store is untouched either way.
\<close>

theorem login_response:
  assumes "route req = PostLogin"
  shows "(\<forall>sess. signInWithPassword dir (b_email (body req)) (b_password (body req)) = Data sess \<longrightarrow>
            handle dir e s req =
              (\<lparr>status_code = 200,
                set_cookies = [\<lparr>cookie_name = ''auth-token'', cookie_value = access_token sess,
                                httpOnly = True, secure = False, maxAge = 3600000\<rparr>],
                payload = Json (MessageJson ''Login successful'')\<rparr>, s))
       \<and> (\<forall>m. signInWithPassword dir (b_email (body req)) (b_password (body req)) = Failure m \<longrightarrow>
            handle dir e s req =
              (\<lparr>status_code = 400, set_cookies = [], payload = Json (ErrorJson m)\<rparr>, s))"
  using assms by (simp add: handle_def login_def json_def)

theorem login_response_witness:
  "handle sample_directory sample_env sample_store
     (sample_request PostLogin None
        (empty_body\<lparr>b_email := Some ''alice@example.com'', b_password := Some ''secret123''\<rparr>))
     = (\<lparr>status_code = 200,
         set_cookies = [\<lparr>cookie_name = ''auth-token'', cookie_value = ''tok-alice'',
                         httpOnly = True, secure = False, maxAge = 3600000\<rparr>],
         payload = Json (MessageJson ''Login successful'')\<rparr>, sample_store)
   \<and> handle sample_directory sample_env sample_store
     (sample_request PostLogin None
        (empty_body\<lparr>b_email := Some ''alice@example.com'', b_password := Some ''guess''\<rparr>))
     = (\<lparr>status_code = 400, set_cookies = [],
         payload = Json (ErrorJson ''Invalid login credentials'')\<rparr>, sample_store)"
proof -
  let ?good = "sample_request PostLogin None
        (empty_body\<lparr>b_email := Some ''alice@example.com'', b_password := Some ''secret123''\<rparr>)"
  let ?bad = "sample_request PostLogin None
        (empty_body\<lparr>b_email := Some ''alice@example.com'', b_password := Some ''guess''\<rparr>)"
  have r: "route ?good = PostLogin" "route ?bad = PostLogin"
    by (simp_all add: sample_request_def)
  have g: "signInWithPassword sample_directory (b_email (body ?good)) (b_password (body ?good))
      = Data \<lparr>access_token = ''tok-alice''\<rparr>"
    by (simp add: sample_request_def sample_directory_def empty_body_def)
  have b: "signInWithPassword sample_directory (b_email (body ?bad)) (b_password (body ?bad))
      = Failure ''Invalid login credentials''"
    by (simp add: sample_request_def sample_directory_def empty_body_def)
  show ?thesis
    using login_response [OF r(1), of sample_directory sample_env sample_store] g
      login_response [OF r(2), of sample_directory sample_env sample_store] b
    by simp
qed

section \<open>Confirming a device\<close>

lemma no_match_filter:
  assumes "\<forall>d \<in> set rows. v \<noteq> Some (col d)"
  shows "filter (eq_filter col v) rows = []"
  using assms by (simp add: eq_filter_def filter_empty_conv)

lemma no_match_map:
  assumes "\<forall>d \<in> set rows. v \<noteq> Some (col d)"
  shows "map (\<lambda>r. if eq_filter col v r then change r else r) rows = rows"
  using assms by (simp add: eq_filter_def map_idI)

text \<open>
  Claim C2, as stated, fails in its first half. An update whose filter matches no row
  is not an error of the store: it answers with an empty array, the handler finds no
  \<^verbatim>\<open>error\<close> and sends 200 with \<^verbatim>\<open>data[0]\<close>, which is \<^verbatim>\<open>undefined\<close>.
  Here the store holds the one device \<^verbatim>\<open>d-1\<close> and the request names \<^verbatim>\<open>d-404\<close>.
\<close>

theorem confirm_unknown_device_succeeds:
  "filter (eq_filter device_id (Some ''d-404'')) (devices sample_store) = []
   \<and> handle sample_directory sample_env sample_store
        (sample_request PostConfirmDevice None (empty_body\<lparr>b_device_id := Some ''d-404''\<rparr>))
      = (\<lparr>status_code = 200, set_cookies = [], payload = Json (DeviceJson None)\<rparr>, sample_store)"
  by (simp add: handle_def sample_request_def sample_env_def sample_store_def lobby_tv_def
      confirm_device_def update_eq_def eq_filter_def first_def json_def empty_body_def)

text \<open>
  Claim C2, amended. For every confirm request whose device id matches no stored device
  row, the store is left as it was. The handler has no not-found outcome of its own:
  when the store reports no error it answers 200 with an empty body, and when the store
  reports an error it answers 500 with the store's message.
\<close>

theorem confirm_unknown_device:
  assumes "\<forall>d \<in> set (devices s). b_device_id b \<noteq> Some (device_id d)"
  shows "snd (confirm_device fault s b) = s
     \<and> (fault = None \<longrightarrow> fst (confirm_device fault s b) = json 200 (DeviceJson None))
     \<and> (\<forall>m. fault = Some m \<longrightarrow> fst (confirm_device fault s b) = json 500 (ErrorJson m))"
  by (cases fault)
    (simp_all add: confirm_device_def update_eq_def no_match_filter [OF assms]
      no_match_map [OF assms] first_def)

theorem confirm_unknown_device_witness:
  "snd (confirm_device None sample_store (empty_body\<lparr>b_device_id := Some ''d-404''\<rparr>))
     = sample_store
   \<and> fst (confirm_device None sample_store (empty_body\<lparr>b_device_id := Some ''d-404''\<rparr>))
     = json 200 (DeviceJson None)
   \<and> confirm_device (Some ''timeout'') sample_store (empty_body\<lparr>b_device_id := Some ''d-404''\<rparr>)
     = (json 500 (ErrorJson ''timeout''), sample_store)"
proof -
  let ?b = "empty_body\<lparr>b_device_id := Some ''d-404''\<rparr>"
  have h: "\<forall>d \<in> set (devices sample_store). b_device_id ?b \<noteq> Some (device_id d)"
    by (simp add: sample_store_def lobby_tv_def)
  show ?thesis
    using confirm_unknown_device [OF h, of None]
      confirm_unknown_device [OF h, of "Some ''timeout''"]
    by (simp add: prod_eq_iff)
qed

subsection \<open>Confirming twice\<close>

lemma update_eq_again:
  assumes c: "\<And>r. col (change r) = col r" and i: "\<And>r. change (change r) = change r"
  shows "update_eq None change col v (snd (update_eq None change col v rows))
     = update_eq None change col v rows"
proof -
  have f: "eq_filter col v (change r) = eq_filter col v r" for r
    by (simp add: eq_filter_def c)
  have "filter (eq_filter col v) (map (\<lambda>r. if eq_filter col v r then change r else r) rows)
      = map change (filter (eq_filter col v) rows)"
    by (induction rows) (simp_all add: f)
  moreover have "map (\<lambda>r. if eq_filter col v r then change r else r)
        (map (\<lambda>r. if eq_filter col v r then change r else r) rows)
      = map (\<lambda>r. if eq_filter col v r then change r else r) rows"
    by (induction rows) (simp_all add: f i)
  ultimately show ?thesis by (simp add: update_eq_def i)
qed

lemma first_matching:
  assumes "d \<in> set rows" "P d"
  shows "\<exists>r. first (map change (filter P rows)) = Some (change r) \<and> r \<in> set rows \<and> P r"
proof -
  from assms have "filter P rows \<noteq> []" by (auto simp: filter_empty_conv)
  then obtain r rest where e: "filter P rows = r # rest" by (cases "filter P rows") auto
  then have "r \<in> set (filter P rows)" by simp
  then have "r \<in> set rows \<and> P r" by simp
  with e show ?thesis by (auto simp: first_def)
qed

text \<open>
  Claim C10. When the device id of the request matches a stored row and the store
  reports no error, a second confirm gives the same response and the same store as the
  first: both responses are 200 with the first matching row, its status set to active
  and its other fields as stored, and the store differs from the original only in that
  the matching rows have status active.
\<close>

theorem confirm_idempotent:
  assumes "d \<in> set (devices s)" and "b_device_id b = Some (device_id d)"
  shows "confirm_device None (snd (confirm_device None s b)) b = confirm_device None s b
     \<and> (\<exists>r \<in> set (devices s). device_id r = device_id d
           \<and> fst (confirm_device None s b) = json 200 (DeviceJson (Some (r\<lparr>status := Active\<rparr>))))
     \<and> snd (confirm_device None s b)
         = s\<lparr>devices := map (\<lambda>r. if device_id r = device_id d then r\<lparr>status := Active\<rparr> else r)
                            (devices s)\<rparr>"
proof (intro conjI)
  have u: "update_eq None (\<lambda>d. d\<lparr>status := Active\<rparr>) device_id (b_device_id b)
       (snd (update_eq None (\<lambda>d. d\<lparr>status := Active\<rparr>) device_id (b_device_id b) (devices s)))
     = update_eq None (\<lambda>d. d\<lparr>status := Active\<rparr>) device_id (b_device_id b) (devices s)"
    by (rule update_eq_again) simp_all
  show "confirm_device None (snd (confirm_device None s b)) b = confirm_device None s b"
    using u by (simp add: confirm_device_def split_beta split: reply.splits prod.splits)
  have "eq_filter device_id (b_device_id b) d" using assms(2) by (simp add: eq_filter_def)
  from first_matching [OF assms(1), of "eq_filter device_id (b_device_id b)", OF this]
  obtain r where r: "first (map (\<lambda>d. d\<lparr>status := Active\<rparr>)
        (filter (eq_filter device_id (b_device_id b)) (devices s))) = Some (r\<lparr>status := Active\<rparr>)"
      "r \<in> set (devices s)" "eq_filter device_id (b_device_id b) r"
    by blast
  from r(3) assms(2) have "device_id r = device_id d" by (simp add: eq_filter_def)
  with r(1,2)
  show "\<exists>r \<in> set (devices s). device_id r = device_id d
           \<and> fst (confirm_device None s b) = json 200 (DeviceJson (Some (r\<lparr>status := Active\<rparr>)))"
    by (auto simp: confirm_device_def update_eq_def)
  have "map (\<lambda>r. if eq_filter device_id (b_device_id b) r then r\<lparr>status := Active\<rparr> else r)
        (devices s)
      = map (\<lambda>r. if device_id r = device_id d then r\<lparr>status := Active\<rparr> else r) (devices s)"
    using assms(2) by (intro map_cong) (auto simp: eq_filter_def)
  then show "snd (confirm_device None s b)
         = s\<lparr>devices := map (\<lambda>r. if device_id r = device_id d then r\<lparr>status := Active\<rparr> else r)
                            (devices s)\<rparr>"
    by (simp add: confirm_device_def update_eq_def)
qed

theorem confirm_idempotent_witness:
  "confirm_device None sample_store (empty_body\<lparr>b_device_id := Some ''d-1''\<rparr>)
     = (json 200 (DeviceJson (Some (lobby_tv\<lparr>status := Active\<rparr>))),
        sample_store\<lparr>devices := [lobby_tv\<lparr>status := Active\<rparr>]\<rparr>)
   \<and> confirm_device None (sample_store\<lparr>devices := [lobby_tv\<lparr>status := Active\<rparr>]\<rparr>)
        (empty_body\<lparr>b_device_id := Some ''d-1''\<rparr>)
     = (json 200 (DeviceJson (Some (lobby_tv\<lparr>status := Active\<rparr>))),
        sample_store\<lparr>devices := [lobby_tv\<lparr>status := Active\<rparr>]\<rparr>)"
proof -
  let ?b = "empty_body\<lparr>b_device_id := Some ''d-1''\<rparr>"
  have m: "lobby_tv \<in> set (devices sample_store)" by (simp add: sample_store_def)
  have i: "b_device_id ?b = Some (device_id lobby_tv)" by (simp add: lobby_tv_def)
  have v: "confirm_device None sample_store ?b
     = (json 200 (DeviceJson (Some (lobby_tv\<lparr>status := Active\<rparr>))),
        sample_store\<lparr>devices := [lobby_tv\<lparr>status := Active\<rparr>]\<rparr>)"
    by (simp add: confirm_device_def update_eq_def eq_filter_def sample_store_def lobby_tv_def
        first_def)
  have "confirm_device None (snd (confirm_device None sample_store ?b)) ?b
      = confirm_device None sample_store ?b"
    using confirm_idempotent [OF m i] by (rule conjunct1)
  then have "confirm_device None (sample_store\<lparr>devices := [lobby_tv\<lparr>status := Active\<rparr>]\<rparr>) ?b
      = confirm_device None sample_store ?b"
    by (simp only: v snd_conv)
  then show ?thesis by (simp only: v simp_thms)
qed

section \<open>Generating a pairing code\<close>

text \<open>
  Claim C4, as stated, fails for a name that is present and empty: the handler inserts
  \<^verbatim>\<open>req.body.device_name || 'New Device'\<close>, and the empty string is falsy. Here
  the body is \<^verbatim>\<open>{"device_name": ""}\<close> and the stored name is the default.
\<close>

theorem generate_empty_name:
  "b_device_name (empty_body\<lparr>b_device_name := Some []\<rparr>) = Some []
   \<and> handle sample_directory sample_env sample_store
        (sample_request PostGenerateCode (Some ''tok-alice'')
           (empty_body\<lparr>b_device_name := Some []\<rparr>))
      = (json 201 (DeviceJson (Some
           \<lparr>device_id = ''d-2'', owner_id = ''u-alice'', unique_code = ''1AB20CFF'',
            device_name = ''New Device'', status = Pending\<rparr>)),
         sample_store\<lparr>devices :=
           [lobby_tv,
            \<lparr>device_id = ''d-2'', owner_id = ''u-alice'', unique_code = ''1AB20CFF'',
             device_name = ''New Device'', status = Pending\<rparr>]\<rparr>)"
proof -
  have "route (sample_request PostGenerateCode (Some ''tok-alice'')
           (empty_body\<lparr>b_device_name := Some []\<rparr>)) = PostGenerateCode"
    by (simp add: sample_request_def)
  then show ?thesis
    by (simp add: handle_def protected_def requireAuth_alice generate_code_def insert_row_def
        stored_device_def generate_insert_def sample_code or_literal_def default_status_def
        first_def sample_env_def sample_store_def alice_def)
      (simp add: sample_request_def)
qed

text \<open>
  Claim C4, amended. The object the handler inserts sets no status. When the store
  reports no error, exactly one row is appended to the devices: it carries the id the
  store assigns, the caller's id as owner, the generated code, the provided name when
  that is a non-empty string and \<^verbatim>\<open>New Device\<close> when it is absent or empty, and
  the status pending by the store's default; the response is 201 with that row. When
  the store reports an error the response is 500 with the store's message and the store
  is unchanged. The route runs this handler with the identity the guard bound.
\<close>

theorem generate_code_row:
  "ins_status (generate_insert rng u b) = None
   \<and> (\<exists>row. generate_code rng False None new_id s u b
              = (json 201 (DeviceJson (Some row)), s\<lparr>devices := devices s @ [row]\<rparr>)
          \<and> device_id row = new_id \<and> owner_id row = user_id u
          \<and> unique_code row = unique_code_of rng \<and> status row = Pending
          \<and> (\<forall>n. b_device_name b = Some n \<and> n \<noteq> [] \<longrightarrow> device_name row = n)
          \<and> (b_device_name b = None \<or> b_device_name b = Some []
                \<longrightarrow> device_name row = ''New Device''))
   \<and> (\<forall>m. generate_code rng False (Some m) new_id s u b = (json 500 (ErrorJson m), s))
   \<and> (\<forall>req req' dir e. route req = PostGenerateCode \<and> requireAuth dir req = Next req'
          \<and> user req' = Some u
        \<longrightarrow> handle dir e s req
            = generate_code (env_rng e) (env_throws e) (env_fault e) (env_new_id e) s u (body req))"
proof (intro conjI)
  show "ins_status (generate_insert rng u b) = None"
    by (simp add: generate_insert_def)
  show "\<exists>row. generate_code rng False None new_id s u b
              = (json 201 (DeviceJson (Some row)), s\<lparr>devices := devices s @ [row]\<rparr>)
          \<and> device_id row = new_id \<and> owner_id row = user_id u
          \<and> unique_code row = unique_code_of rng \<and> status row = Pending
          \<and> (\<forall>n. b_device_name b = Some n \<and> n \<noteq> [] \<longrightarrow> device_name row = n)
          \<and> (b_device_name b = None \<or> b_device_name b = Some []
                \<longrightarrow> device_name row = ''New Device'')"
    by (rule exI [of _ "stored_device new_id (generate_insert rng u b)"])
      (auto simp: generate_code_def insert_row_def first_def stored_device_def
        generate_insert_def or_literal_def default_status_def)
  show "\<forall>m. generate_code rng False (Some m) new_id s u b = (json 500 (ErrorJson m), s)"
    by (simp add: generate_code_def insert_row_def)
  show "\<forall>req req' dir e. route req = PostGenerateCode \<and> requireAuth dir req = Next req'
          \<and> user req' = Some u
        \<longrightarrow> handle dir e s req
            = generate_code (env_rng e) (env_throws e) (env_fault e) (env_new_id e) s u (body req)"
    by (simp add: handle_def protected_def)
qed

theorem generate_code_row_witness:
  "handle sample_directory sample_env sample_store
        (sample_request PostGenerateCode (Some ''tok-alice'')
           (empty_body\<lparr>b_device_name := Some ''Kiosk''\<rparr>))
      = (json 201 (DeviceJson (Some
           \<lparr>device_id = ''d-2'', owner_id = ''u-alice'', unique_code = ''1AB20CFF'',
            device_name = ''Kiosk'', status = Pending\<rparr>)),
         sample_store\<lparr>devices :=
           [lobby_tv,
            \<lparr>device_id = ''d-2'', owner_id = ''u-alice'', unique_code = ''1AB20CFF'',
             device_name = ''Kiosk'', status = Pending\<rparr>]\<rparr>)"
proof -
  let ?b = "empty_body\<lparr>b_device_name := Some ''Kiosk''\<rparr>"
  let ?req = "sample_request PostGenerateCode (Some ''tok-alice'') ?b"
  have r: "route ?req = PostGenerateCode \<and> requireAuth sample_directory ?req
      = Next (?req\<lparr>user := Some alice\<rparr>) \<and> user (?req\<lparr>user := Some alice\<rparr>) = Some alice"
    by (simp add: requireAuth_alice) (simp add: sample_request_def)
  have h: "handle sample_directory sample_env sample_store ?req
      = generate_code (env_rng sample_env) (env_throws sample_env) (env_fault sample_env)
          (env_new_id sample_env) sample_store alice (body ?req)"
    using generate_code_row [of sample_rng alice ?b "''d-2''" sample_store] r by blast
  have n: "b_device_name ?b = Some ''Kiosk'' \<and> ''Kiosk'' \<noteq> []" by simp
  obtain row where row: "generate_code sample_rng False None ''d-2'' sample_store alice ?b
              = (json 201 (DeviceJson (Some row)), sample_store\<lparr>devices := devices sample_store @ [row]\<rparr>)"
     "device_id row = ''d-2''" "owner_id row = user_id alice"
     "unique_code row = unique_code_of sample_rng" "status row = Pending"
     "device_name row = ''Kiosk''"
    using generate_code_row [of sample_rng alice ?b "''d-2''" sample_store] n by blast
  have "row = \<lparr>device_id = ''d-2'', owner_id = ''u-alice'', unique_code = ''1AB20CFF'',
            device_name = ''Kiosk'', status = Pending\<rparr>"
    using row(2-6) by (cases row) (simp add: sample_code alice_def)
  with row(1) h show ?thesis
    by (simp add: sample_env_def sample_store_def) (simp add: sample_request_def)
qed

section \<open>The status of a device\<close>

text \<open>What each route does to the devices table.\<close>

lemma protected_cases:
  "(\<exists>r. protected dir req s h = (r, s)) \<or> (\<exists>u. protected dir req s h = h u)"
  by (auto simp: protected_def split: guard_outcome.splits option.splits)

lemma generate_code_devices:
  "devices (snd (generate_code rng throws fault new_id s u b)) = devices s
   \<or> (\<exists>row. status row = Pending
         \<and> devices (snd (generate_code rng throws fault new_id s u b)) = devices s @ [row])"
  by (cases fault)
    (auto simp: generate_code_def insert_row_def stored_device_def generate_insert_def
      default_status_def)

lemma confirm_device_devices:
  "devices (snd (confirm_device fault s b)) = devices s
   \<or> devices (snd (confirm_device fault s b))
       = map (\<lambda>r. if eq_filter device_id (b_device_id b) r then r\<lparr>status := Active\<rparr> else r)
           (devices s)"
  by (cases fault) (auto simp: confirm_device_def update_eq_def)

lemma create_content_devices: "devices (snd (create_content fault new_id s u b)) = devices s"
  by (cases fault) (auto simp: create_content_def insert_row_def)

lemma update_profile_devices:
  "devices (snd (update_profile fault auth_fault s u b)) = devices s"
  by (cases fault) (auto simp: update_profile_def update_eq_def Let_def)

lemma create_playlist_devices: "devices (snd (create_playlist fault s b)) = devices s"
  by (cases fault) (auto simp: create_playlist_def insert_row_def)

lemma handle_devices:
  "devices (snd (handle dir e s req)) = devices s
   \<or> (route req = PostConfirmDevice
       \<and> devices (snd (handle dir e s req))
           = map (\<lambda>r. if eq_filter device_id (b_device_id (body req)) r
                       then r\<lparr>status := Active\<rparr> else r) (devices s))
   \<or> (route req = PostGenerateCode
       \<and> (\<exists>row. status row = Pending
              \<and> devices (snd (handle dir e s req)) = devices s @ [row]))"
proof (cases "route req")
  case PostGenerateCode
  let ?h = "\<lambda>u. generate_code (env_rng e) (env_throws e) (env_fault e) (env_new_id e) s u
                   (body req)"
  from protected_cases [of dir req s ?h] generate_code_devices
  show ?thesis using PostGenerateCode by (fastforce simp: handle_def)
next
  case PostConfirmDevice
  then show ?thesis using confirm_device_devices [of "env_fault e" s "body req"]
    by (auto simp: handle_def)
next
  case PostContent
  let ?h = "\<lambda>u. create_content (env_fault e) (env_new_id e) s u (body req)"
  from protected_cases [of dir req s ?h] create_content_devices
  show ?thesis using PostContent by (fastforce simp: handle_def)
next
  case PutUserProfile
  let ?h = "\<lambda>u. update_profile (env_fault e) (env_fault2 e) s u (body req)"
  from protected_cases [of dir req s ?h] update_profile_devices
  show ?thesis using PutUserProfile by (fastforce simp: handle_def)
next
  case PostPlaylist
  let ?h = "\<lambda>u. create_playlist (env_fault e) s (body req)"
  from protected_cases [of dir req s ?h] create_playlist_devices
  show ?thesis using PostPlaylist by (fastforce simp: handle_def)
qed (auto simp: handle_def protected_def split: guard_outcome.splits option.splits)

lemma active_stays: "status r = Active \<Longrightarrow> r\<lparr>status := Active\<rparr> = r"
  by (cases r) simp

lemma handle_row:
  assumes "i < length (devices s)"
  shows "devices (snd (handle dir e s req)) ! i = devices s ! i
     \<or> (route req = PostConfirmDevice
         \<and> devices (snd (handle dir e s req)) ! i = (devices s ! i)\<lparr>status := Active\<rparr>)"
  using handle_devices [of dir e s req] assms by (auto simp: nth_append)

lemma handle_length: "length (devices s) \<le> length (devices (snd (handle dir e s req)))"
  using handle_devices [of dir e s req] by auto

lemma handle_new_row:
  assumes "length (devices s) \<le> i" "i < length (devices (snd (handle dir e s req)))"
  shows "route req = PostGenerateCode \<and> status (devices (snd (handle dir e s req)) ! i) = Pending"
  using handle_devices [of dir e s req] assms by (auto simp: nth_append)

lemma serve_active:
  assumes "i < length (devices s)" "status (devices s ! i) = Active"
  shows "i < length (devices (serve s reqs)) \<and> devices (serve s reqs) ! i = devices s ! i"
  using assms
proof (induction reqs arbitrary: s)
  case Nil
  then show ?case by simp
next
  case (Cons x reqs)
  obtain dir e req where x: "x = (dir, e, req)" by (cases x) auto
  let ?s = "snd (handle dir e s req)"
  have l: "i < length (devices ?s)"
    using handle_length [of s dir e req] Cons.prems(1) by simp
  have r: "devices ?s ! i = devices s ! i"
    using handle_row [OF Cons.prems(1), of dir e req] active_stays [OF Cons.prems(2)] by auto
  then have "status (devices ?s ! i) = Active" using Cons.prems(2) by simp
  from Cons.IH [OF l this] r show ?case by (simp add: x)
qed

text \<open>
  Claim C5. Rows keep their position in the devices table. In one request, whatever
  the route, the Directory Service and the store's answers: every existing row is left
  as it was, or the route is the confirm route and the row differs only in that its
  status is now active; the table does not shrink; and a row that was not there before
  was made by the generate route and has status pending. Hence over any run of
  requests a row that is active stays in place, active, with every field as it was.
\<close>

theorem status_never_reverts:
  "(\<forall>i < length (devices s).
       devices (snd (handle dir e s req)) ! i = devices s ! i
       \<or> (route req = PostConfirmDevice
           \<and> devices (snd (handle dir e s req)) ! i = (devices s ! i)\<lparr>status := Active\<rparr>))
   \<and> length (devices s) \<le> length (devices (snd (handle dir e s req)))
   \<and> (\<forall>i. length (devices s) \<le> i \<and> i < length (devices (snd (handle dir e s req)))
          \<longrightarrow> route req = PostGenerateCode
              \<and> status (devices (snd (handle dir e s req)) ! i) = Pending)
   \<and> (\<forall>i < length (devices s). status (devices s ! i) = Active
          \<longrightarrow> i < length (devices (serve s reqs))
              \<and> devices (serve s reqs) ! i = devices s ! i)"
  using handle_row [of _ s dir e req] handle_length [of s dir e req]
    handle_new_row [of s _ dir e req] serve_active [of _ s reqs]
  by blast

lemma sample_run_result:
  "devices (serve active_store sample_run)
     = [lobby_tv\<lparr>status := Active\<rparr>,
        \<lparr>device_id = ''d-2'', owner_id = ''u-alice'', unique_code = ''1AB20CFF'',
         device_name = ''Kiosk'', status = Pending\<rparr>]"
  by (simp add: sample_run_def active_store_def handle_def protected_def requireAuth_alice
      generate_code_def insert_row_def stored_device_def generate_insert_def sample_code
      or_literal_def default_status_def first_def sample_env_def sample_store_def alice_def
      confirm_device_def update_eq_def eq_filter_def lobby_tv_def update_profile_def
      js_or_def truthy_def metadata_full_name_def metadata_avatar_url_def updateUser_def
      sample_request_sel empty_body_def Let_def)

theorem status_never_reverts_witness:
  "status (devices active_store ! 0) = Active
   \<and> devices (serve active_store sample_run) ! 0 = devices active_store ! 0
   \<and> length (devices (serve active_store sample_run)) = 2"
proof -
  have a: "0 < length (devices active_store)" "status (devices active_store ! 0) = Active"
    by (simp_all add: active_store_def)
  have "devices (serve active_store sample_run) ! 0 = devices active_store ! 0"
    using status_never_reverts [of active_store sample_directory sample_env
        "sample_request GetRoot None empty_body" sample_run] a
    by blast
  then show ?thesis using a(2) by (simp add: sample_run_result)
qed

section \<open>The page routes\<close>

text \<open>
  Claim C6 at a failing input. The store holds the device \<^verbatim>\<open>d-1\<close> of the user
  \<^verbatim>\<open>u-alice\<close>; the user \<^verbatim>\<open>u-bob\<close>, with a valid session, asks for
  \<^verbatim>\<open>/playlist/d-1\<close>. The device query filters on \<^verbatim>\<open>device_id\<close> only, so
  the page is rendered with the other user's device row.
\<close>

theorem playlist_page_other_owner:
  "owner_id lobby_tv \<noteq> user_id bob
   \<and> handle sample_directory sample_env sample_store
        (sample_request (GetPlaylist ''d-1'') (Some ''tok-bob'') empty_body)
      = (render (PlaylistView (Some lobby_tv) []), sample_store)"
  by (simp add: handle_def protected_def requireAuth_bob sample_request_sel playlist_page_def
      select_eq_def single_def eq_filter_def sample_env_def sample_store_def lobby_tv_def
      bob_def)

text \<open>
  Claim C7 at a failing input. The store answers every query of the request with an
  error. The content page and the playlist page are rendered all the same, status 200,
  with an empty content list and an empty device; the dashboard, on the same failure,
  answers 500.
\<close>

theorem content_page_swallows_error:
  "handle sample_directory (sample_env\<lparr>env_fault := Some ''connection refused''\<rparr>) sample_store
        (sample_request GetContent (Some ''tok-alice'') empty_body)
      = (\<lparr>status_code = 200, set_cookies = [], payload = Render (ContentView [])\<rparr>,
         sample_store)
   \<and> handle sample_directory
        (sample_env\<lparr>env_fault := Some ''connection refused'',
                     env_fault2 := Some ''connection refused''\<rparr>) sample_store
        (sample_request (GetPlaylist ''d-1'') (Some ''tok-alice'') empty_body)
      = (\<lparr>status_code = 200, set_cookies = [], payload = Render (PlaylistView None [])\<rparr>,
         sample_store)
   \<and> handle sample_directory (sample_env\<lparr>env_fault := Some ''connection refused''\<rparr>) sample_store
        (sample_request GetDashboard (Some ''tok-alice'') empty_body)
      = (\<lparr>status_code = 500, set_cookies = [], payload = Send ''Error fetching devices''\<rparr>,
         sample_store)"
  by (simp add: handle_def protected_def requireAuth_alice sample_request_sel content_page_def
      playlist_page_def dashboard_def select_eq_def single_def sample_env_def render_def
      send_def)

section \<open>Updating the profile\<close>

text \<open>
  Claim C8 at a failing input. The fallback for a missing name is the name in the
  caller's identity metadata, which the guard has read from the Directory Service, and
  then the empty string; the name in the users row is not read. Where the two copies
  differ the stored name is lost. The handler itself brings that state about. First
  request: the name is set to \<^verbatim>\<open>Alicia\<close>; the users row is updated, the metadata
  update fails and is only logged, so the caller's metadata still says
  \<^verbatim>\<open>Alice\<close>. Second request, by the same caller: only \<^verbatim>\<open>avatar_url\<close> is
  supplied, and the stored name goes back to \<^verbatim>\<open>Alice\<close>. For a caller whose
  metadata holds no name, the same request replaces a stored \<^verbatim>\<open>Bob\<close> by the empty
  string.
\<close>

theorem profile_update_stale_name:
  "update_profile None (Some ''Auth session missing!'') sample_store alice
        (empty_body\<lparr>b_full_name := Some ''Alicia''\<rparr>)
      = (json 200 (UserJson (Some \<lparr>users_id = ''u-alice'', full_name = ''Alicia'', avatar_url = []\<rparr>)),
         sample_store\<lparr>users := [\<lparr>users_id = ''u-alice'', full_name = ''Alicia'', avatar_url = []\<rparr>]\<rparr>)
   \<and> b_full_name (empty_body\<lparr>b_avatar_url := Some ''a.png''\<rparr>) = None
   \<and> metadata_full_name alice = Some ''Alice''
   \<and> users (snd (update_profile None None
        (sample_store\<lparr>users := [\<lparr>users_id = ''u-alice'', full_name = ''Alicia'', avatar_url = []\<rparr>]\<rparr>)
        alice (empty_body\<lparr>b_avatar_url := Some ''a.png''\<rparr>)))
      = [\<lparr>users_id = ''u-alice'', full_name = ''Alice'', avatar_url = ''a.png''\<rparr>]
   \<and> metadata_full_name bob = None
   \<and> users (snd (update_profile None None
        (sample_store\<lparr>users := [\<lparr>users_id = ''u-bob'', full_name = ''Bob'', avatar_url = []\<rparr>]\<rparr>)
        bob (empty_body\<lparr>b_avatar_url := Some ''a.png''\<rparr>)))
      = [\<lparr>users_id = ''u-bob'', full_name = [], avatar_url = ''a.png''\<rparr>]"
  by (simp add: update_profile_def update_eq_def eq_filter_def first_def updateUser_def
      or_literal_def js_or_def truthy_def metadata_full_name_def metadata_avatar_url_def
      sample_store_def alice_def bob_def empty_body_def Let_def)

end
